theory Spec2Isabelle
  imports Complex_Main "HOL-Library.Sublist"
begin

section \<open>Data model\<close>

text \<open>
  The element type of a value array. The code distinguishes only \<open>np.float32\<close>,
  \<open>np.float64\<close> and everything else; the name of any other dtype is kept because the
  error messages print it.
\<close>

datatype dtype = Float32 | Float64 | OtherDtype string

text \<open>The integer type of index and pointer arrays; also the two candidates for \<open>MKL.MKL_INT_NUMPY\<close>.\<close>

datatype int_dtype = Int32 | Int64

datatype format = CSR | CSC | OtherFormat

text \<open>
  A scipy sparse matrix as this code reads and writes it: the three arrays with their
  dtypes, the shape and the storage format. \<open>matrix.dtype\<close> in scipy is the dtype of
  \<open>matrix.data\<close>, so one field holds both. The element type \<open>'v\<close> of the value array
  is left open.
\<close>

record 'v matrix =
  fmt :: format
  shape :: "nat \<times> nat"
  data :: "'v list"
  dtype :: dtype
  indices :: "int list"
  indices_dtype :: int_dtype
  indptr :: "int list"
  indptr_dtype :: int_dtype

text \<open>A native handle is an address; a freshly constructed \<open>sparse_matrix_t()\<close> is NULL.\<close>

type_synonym handle = nat

datatype entry_point =
    mkl_sparse_d_create_csr | mkl_sparse_s_create_csr
  | mkl_sparse_d_create_csc | mkl_sparse_s_create_csc
  | mkl_sparse_d_export_csr | mkl_sparse_s_export_csr
  | mkl_sparse_d_export_csc | mkl_sparse_s_export_csc
  | mkl_sparse_spmm | mkl_sparse_destroy | mkl_sparse_order | mkl_sparse_convert_csr

text \<open>
  The payload of each \<open>ValueError\<close> the code raises, one constructor per message.
  \<open>VendorReturned fn v e\<close> is the message \<open>"{fn} returned {v} ({e})"\<close>.
\<close>

datatype value_error =
    BothMustBeCSR
  | AlignmentError "nat \<times> nat" "nat \<times> nat"
  | DtypeConcordance dtype dtype
  | OnlyFloatDtypes
  | NotCSCorCSR
  | VendorReturned entry_point int string
  | OnlyCSRandCSCOutput
  | OneIndexingUnsupported
  | AttemptingToIndex nat nat int
  | ConversionFailed
  | ZeroSizeReduction

datatype error =
    ValueError value_error
  | AssertionError
  | KeyError int
  | ImportError

section \<open>The vendor library\<close>

text \<open>
  The vendor library is opaque. One call is a request; the library answers with a reply
  that may depend on every request made before. A reply holds the integer status, the
  handle written through the output pointer (create, multiply, convert), and what an
  export call writes: ordering, dimensions and the four raw arrays, each read at an offset.
\<close>

datatype 'v request =
    Create entry_point "'v matrix"
  | Export entry_point handle
  | Spmm handle handle
  | Destroy handle
  | Order handle
  | Convert_csr handle

record 'v reply =
  ret_val :: int
  ref :: handle
  ordering :: int
  nrows :: nat
  ncols :: nat
  rows_start :: "nat \<Rightarrow> int"
  rows_end :: "nat \<Rightarrow> int"
  col_indx :: "nat \<Rightarrow> int"
  vals :: "nat \<Rightarrow> 'v"

type_synonym 'v trace = "'v request list"

type_synonym 'v vendor = "'v trace \<Rightarrow> 'v request \<Rightarrow> 'v reply"

text \<open>
  What numpy and scipy contribute and this repository does not define: the elementwise
  conversion of a value to float64 (\<open>astype(np.float64)\<close>), the fixed random test matrix
  of \<open>_validate_dtype\<close>, and the comparison of two matrices in dense form by
  \<open>assert_array_almost_equal\<close>.
\<close>

record 'v host =
  to_float64 :: "dtype \<Rightarrow> 'v \<Rightarrow> 'v"
  test_array :: "'v matrix"
  array_almost_equal :: "'v matrix \<Rightarrow> 'v matrix \<Rightarrow> bool"

section \<open>Integers of a fixed width\<close>

definition bits :: "int_dtype \<Rightarrow> nat" where
  "bits t = (case t of Int32 \<Rightarrow> 32 | Int64 \<Rightarrow> 64)"

text \<open>Two's-complement wrap-around of an integer into the range of the given type.\<close>

definition wrap :: "int_dtype \<Rightarrow> int \<Rightarrow> int" where
  "wrap t x = (x + 2 ^ (bits t - 1)) mod 2 ^ bits t - 2 ^ (bits t - 1)"

text \<open>\<open>arr.astype(t)\<close> on an integer array.\<close>

definition astype_int :: "int_dtype \<Rightarrow> int list \<Rightarrow> int list" where
  "astype_int t xs = map (wrap t) xs"

section \<open>Return codes\<close>

definition RETURN_CODES :: "(int \<times> string) list" where
  "RETURN_CODES =
    [(0, ''SPARSE_STATUS_SUCCESS''),
     (1, ''SPARSE_STATUS_NOT_INITIALIZED''),
     (2, ''SPARSE_STATUS_ALLOC_FAILED''),
     (3, ''SPARSE_STATUS_INVALID_VALUE''),
     (4, ''SPARSE_STATUS_EXECUTION_FAILED''),
     (5, ''SPARSE_STATUS_INTERNAL_ERROR''),
     (6, ''SPARSE_STATUS_NOT_SUPPORTED'')]"

text \<open>
  The error raised on a nonzero status by the wrappers that format
  \<open>RETURN_CODES[ret_val]\<close> into the message: a status missing from the dictionary makes
  the lookup itself raise \<open>KeyError\<close>.
\<close>

definition status_error :: "entry_point \<Rightarrow> int \<Rightarrow> error" where
  "status_error fn v =
     (case map_of RETURN_CODES v of
        None \<Rightarrow> KeyError v
      | Some e \<Rightarrow> ValueError (VendorReturned fn v e))"

section \<open>Marshalling\<close>

definition check_scipy_index_typing :: "int_dtype \<Rightarrow> 'v matrix \<Rightarrow> 'v matrix" where
  "check_scipy_index_typing MKL_INT sparse_matrix =
     (let m1 = (if indptr_dtype sparse_matrix \<noteq> MKL_INT
                then sparse_matrix\<lparr>indptr := astype_int MKL_INT (indptr sparse_matrix),
                                   indptr_dtype := MKL_INT\<rparr>
                else sparse_matrix)
      in if indices_dtype m1 \<noteq> MKL_INT
         then m1\<lparr>indices := astype_int MKL_INT (indices m1), indices_dtype := MKL_INT\<rparr>
         else m1)"

definition pass_mkl_handle ::
  "'v vendor \<Rightarrow> 'v trace \<Rightarrow> 'v matrix \<Rightarrow> entry_point \<Rightarrow> (error + handle) \<times> 'v trace" where
  "pass_mkl_handle vendor tr data_m handle_func =
     (let r = vendor tr (Create handle_func data_m);
          tr' = tr @ [Create handle_func data_m]
      in if ret_val r \<noteq> 0 then (Inl (status_error handle_func (ret_val r)), tr')
         else (Inr (ref r), tr'))"

text \<open>
  \<open>_create_mkl_sparse\<close> returns the handle and the precision flag, or raises; either
  way the caller's matrix is left as the function mutated it, so the matrix is returned
  as well.
\<close>

definition create_mkl_sparse ::
  "'v host \<Rightarrow> 'v vendor \<Rightarrow> int_dtype \<Rightarrow> 'v trace \<Rightarrow> 'v matrix \<Rightarrow> bool
     \<Rightarrow> (error + handle \<times> bool) \<times> 'v matrix \<times> 'v trace" where
  "create_mkl_sparse host vendor MKL_INT tr m cast =
     (case (if dtype m = Float32 then Inr (False, m)
            else if dtype m = Float64 then Inr (True, m)
            else if cast
            then Inr (True, m\<lparr>data := map (to_float64 host (dtype m)) (data m),
                               dtype := Float64\<rparr>)
            else Inl (ValueError OnlyFloatDtypes)) of
        Inl e \<Rightarrow> (Inl e, m, tr)
      | Inr (double_precision, m1) \<Rightarrow>
          let m2 = check_scipy_index_typing MKL_INT m1
          in if length (data m2) \<noteq> length (indices m2) then (Inl AssertionError, m2, tr)
             else if fmt m2 = CSR then
               (if length (indptr m2) \<noteq> fst (shape m2) + 1 then (Inl AssertionError, m2, tr)
                else
                  case pass_mkl_handle vendor tr m2
                         (if double_precision then mkl_sparse_d_create_csr
                          else mkl_sparse_s_create_csr) of
                    (Inl e, tr') \<Rightarrow> (Inl e, m2, tr')
                  | (Inr h, tr') \<Rightarrow> (Inr (h, double_precision), m2, tr'))
             else if fmt m2 = CSC then
               (if length (indptr m2) \<noteq> snd (shape m2) + 1 then (Inl AssertionError, m2, tr)
                else
                  case pass_mkl_handle vendor tr m2
                         (if double_precision then mkl_sparse_d_create_csc
                          else mkl_sparse_s_create_csc) of
                    (Inl e, tr') \<Rightarrow> (Inl e, m2, tr')
                  | (Inr h, tr') \<Rightarrow> (Inr (h, double_precision), m2, tr'))
             else (Inl (ValueError NotCSCorCSR), m2, tr))"

text \<open>
  The two host constructors \<open>_export_mkl\<close> and \<open>dot_product_mkl\<close> use. Given only a
  shape, scipy builds a matrix with no stored entries: empty value and index arrays and a
  pointer array of zeros, one longer than the major dimension, with 32-bit indices unless
  a dimension needs more. Given the three arrays, the matrix holds them; scipy's own
  validation of the arrays is not part of this repository.
\<close>

definition major :: "format \<Rightarrow> nat \<times> nat \<Rightarrow> nat" where
  "major f sh = (if f = CSC then snd sh else fst sh)"

definition sp_matrix_empty :: "format \<Rightarrow> nat \<times> nat \<Rightarrow> dtype \<Rightarrow> 'v matrix" where
  "sp_matrix_empty f sh dt =
     (let idx = (if max (fst sh) (snd sh) > 2 ^ 31 - 1 then Int64 else Int32)
      in \<lparr>fmt = f, shape = sh, data = [], dtype = dt,
          indices = [], indices_dtype = idx,
          indptr = replicate (major f sh + 1) 0, indptr_dtype = idx\<rparr>)"

definition sp_matrix_arrays ::
  "format \<Rightarrow> 'v list \<Rightarrow> dtype \<Rightarrow> int list \<Rightarrow> int list \<Rightarrow> int_dtype \<Rightarrow> nat \<times> nat \<Rightarrow> 'v matrix" where
  "sp_matrix_arrays f dat dt ind ptr idx sh =
     \<lparr>fmt = f, shape = sh, data = dat, dtype = dt,
      indices = ind, indices_dtype = idx, indptr = ptr, indptr_dtype = idx\<rparr>"

text \<open>\<open>str.lower()\<close> on the ASCII letters.\<close>

definition lower_char :: "char \<Rightarrow> char" where
  "lower_char c =
     (case map_of (zip ''ABCDEFGHIJKLMNOPQRSTUVWXYZ'' ''abcdefghijklmnopqrstuvwxyz'') c of
        None \<Rightarrow> c
      | Some l \<Rightarrow> l)"

definition lower :: "string \<Rightarrow> string" where
  "lower s = map lower_char s"

text \<open>\<open>as_array(ptr, shape=(n,))\<close>: the first \<open>n\<close> cells behind a pointer.\<close>

definition as_array :: "(nat \<Rightarrow> 'a) \<Rightarrow> nat \<Rightarrow> 'a list" where
  "as_array p n = map p [0..<n]"

text \<open>
  \<open>_export_mkl\<close>. Cells read through a pointer to \<open>MKL_INT\<close> are values of that width,
  and the subtraction of two of them is numpy integer arithmetic of that width. The
  \<open>copy\<close> flag decides whether the returned arrays are copies or views of vendor memory;
  their contents at the time of the call are the same.
\<close>

definition export_mkl ::
  "'v vendor \<Rightarrow> int_dtype \<Rightarrow> 'v trace \<Rightarrow> handle \<Rightarrow> bool \<Rightarrow> string \<Rightarrow> bool
     \<Rightarrow> (error + 'v matrix) \<times> 'v trace" where
  "export_mkl vendor MKL_INT tr csr_mkl_handle double_precision output_type copy =
     (let output_type = lower output_type in
      if output_type \<noteq> ''csr'' \<and> output_type \<noteq> ''csc''
      then (Inl (ValueError OnlyCSRandCSCOutput), tr)
      else
        let out_func =
              (if output_type = ''csr''
               then (if double_precision then mkl_sparse_d_export_csr
                     else mkl_sparse_s_export_csr)
               else (if double_precision then mkl_sparse_d_export_csc
                     else mkl_sparse_s_export_csc));
            sp_fmt = (if output_type = ''csr'' then CSR else CSC);
            final_dtype = (if double_precision then Float64 else Float32);
            r = vendor tr (Export out_func csr_mkl_handle);
            tr' = tr @ [Export out_func csr_mkl_handle]
        in if ret_val r \<noteq> 0 then (Inl (status_error out_func (ret_val r)), tr')
           else if ordering r \<noteq> 0 then (Inl (ValueError OneIndexingUnsupported), tr')
           else if nrows r = 0 \<or> ncols r = 0
           then (Inr (sp_matrix_empty sp_fmt (nrows r, ncols r) final_dtype), tr')
           else
             let index_dim = (if output_type = ''csr'' then nrows r else ncols r);
                 indptrb = as_array (\<lambda>i. wrap MKL_INT (rows_start r i)) index_dim;
                 indptren = as_array (\<lambda>i. wrap MKL_INT (rows_end r i)) index_dim;
                 indptren = hd indptrb # indptren;
                 nnz = wrap MKL_INT (last indptren - hd indptrb)
             in if nnz = 0
                then (Inr (sp_matrix_empty sp_fmt (nrows r, ncols r) final_dtype), tr')
                else if nnz < 0 \<or> nnz > int (ncols r * nrows r)
                then (Inl (ValueError (AttemptingToIndex (nrows r) (ncols r) nnz)), tr')
                else
                  (Inr (sp_matrix_arrays sp_fmt
                          (as_array (vals r) (nat nnz)) final_dtype
                          (as_array (\<lambda>i. wrap MKL_INT (col_indx r i)) (nat nnz))
                          indptren MKL_INT (nrows r, ncols r)), tr'))"

definition matmul_mkl ::
  "'v vendor \<Rightarrow> 'v trace \<Rightarrow> 'v matrix \<Rightarrow> 'v matrix \<Rightarrow> handle \<Rightarrow> handle
     \<Rightarrow> (error + handle) \<times> 'v trace" where
  "matmul_mkl vendor tr mat_ref_a mat_ref_b sp_ref_a sp_ref_b =
     (let r = vendor tr (Spmm sp_ref_a sp_ref_b);
          tr' = tr @ [Spmm sp_ref_a sp_ref_b]
      in if ret_val r \<noteq> 0 then (Inl (status_error mkl_sparse_spmm (ret_val r)), tr')
         else if length (data mat_ref_a) \<noteq> length (indices mat_ref_a)
         then (Inl AssertionError, tr')
         else if length (data mat_ref_b) \<noteq> length (indices mat_ref_b)
         then (Inl AssertionError, tr')
         else (Inr (ref r), tr'))"

definition destroy_mkl_handle ::
  "'v vendor \<Rightarrow> 'v trace \<Rightarrow> handle \<Rightarrow> (error + unit) \<times> 'v trace" where
  "destroy_mkl_handle vendor tr ref_handle =
     (let r = vendor tr (Destroy ref_handle);
          tr' = tr @ [Destroy ref_handle]
      in if ret_val r \<noteq> 0 then (Inl (status_error mkl_sparse_destroy (ret_val r)), tr')
         else (Inr (), tr'))"

definition order_mkl_handle ::
  "'v vendor \<Rightarrow> 'v trace \<Rightarrow> handle \<Rightarrow> (error + unit) \<times> 'v trace" where
  "order_mkl_handle vendor tr ref_handle =
     (let r = vendor tr (Order ref_handle);
          tr' = tr @ [Order ref_handle]
      in if ret_val r \<noteq> 0 then (Inl (status_error mkl_sparse_order (ret_val r)), tr')
         else (Inr (), tr'))"


section \<open>Integer-width discovery\<close>




section \<open>The multiplication\<close>

text \<open>
  Sequencing of fallible steps: an exception raised by a step ends the function; otherwise
  the next step runs with the value and the trace of vendor calls so far.
\<close>

definition and_then ::
  "(error + 'a) \<times> 't \<Rightarrow> ('a \<Rightarrow> 't \<Rightarrow> (error + 'b) \<times> 't) \<Rightarrow> (error + 'b) \<times> 't" where
  "and_then r k = (case r of (Inl e, tr) \<Rightarrow> (Inl e, tr) | (Inr x, tr) \<Rightarrow> k x tr)"

text \<open>
  \<open>dot_product_mkl\<close>. The outcome is the returned matrix or the raised error, together
  with what the call leaves behind: the two caller-supplied matrices as mutated, and the
  vendor calls made, in order. Printing and timing have no effect and are left out; the
  statistics printed in debug mode take the minimum of a value array, which numpy refuses
  for an empty array, and the operands' arrays are not empty past the degenerate check.
\<close>

definition dot_product_mkl ::
  "'v host \<Rightarrow> 'v vendor \<Rightarrow> int_dtype \<Rightarrow> 'v matrix \<Rightarrow> 'v matrix
     \<Rightarrow> bool \<Rightarrow> bool \<Rightarrow> bool \<Rightarrow> bool
     \<Rightarrow> (error + 'v matrix) \<times> 'v matrix \<times> 'v matrix \<times> 'v trace" where
  "dot_product_mkl host vendor MKL_INT matrix_a matrix_b cast copy reorder_output debug =
     (if fmt matrix_a \<noteq> CSR \<or> fmt matrix_b \<noteq> CSR
      then (Inl (ValueError BothMustBeCSR), matrix_a, matrix_b, [])
      else if snd (shape matrix_a) \<noteq> fst (shape matrix_b)
      then (Inl (ValueError (AlignmentError (shape matrix_a) (shape matrix_b))),
            matrix_a, matrix_b, [])
      else if min_list [fst (shape matrix_a), snd (shape matrix_a),
                        fst (shape matrix_b), snd (shape matrix_b),
                        length (data matrix_a), length (data matrix_b),
                        length (indices matrix_a), length (indices matrix_b)] = 0
      then
        (let final_dtype =
               (if dtype matrix_a \<noteq> dtype matrix_b \<or> dtype matrix_a \<noteq> Float32
                then Float64 else Float32)
         in (Inr (sp_matrix_empty CSR (fst (shape matrix_a), fst (shape matrix_b)) final_dtype),
             matrix_a, matrix_b, []))
      else
        (case (if dtype matrix_a \<noteq> dtype matrix_b \<and> cast
               then Inr
                 (if dtype matrix_a = Float64 then matrix_a
                  else matrix_a\<lparr>data := map (to_float64 host (dtype matrix_a)) (data matrix_a),
                                dtype := Float64\<rparr>,
                  if dtype matrix_b = Float64 then matrix_b
                  else matrix_b\<lparr>data := map (to_float64 host (dtype matrix_b)) (data matrix_b),
                                dtype := Float64\<rparr>)
               else if dtype matrix_a \<noteq> dtype matrix_b
               then Inl (ValueError (DtypeConcordance (dtype matrix_a) (dtype matrix_b)))
               else Inr (matrix_a, matrix_b)) of
           Inl e \<Rightarrow> (Inl e, matrix_a, matrix_b, [])
         | Inr (a1, b1) \<Rightarrow>
        (case create_mkl_sparse host vendor MKL_INT [] a1 cast of
           (Inl e, a2, tr) \<Rightarrow> (Inl e, a2, b1, tr)
         | (Inr (mkl_a, a_dbl), a2, tr) \<Rightarrow>
        (case create_mkl_sparse host vendor MKL_INT tr b1 cast of
           (Inl e, b2, tr) \<Rightarrow> (Inl e, a2, b2, tr)
         | (Inr (mkl_b, b_dbl), b2, tr) \<Rightarrow>
        (case
          and_then (order_mkl_handle vendor tr mkl_a) (\<lambda>u tr.
          and_then (order_mkl_handle vendor tr mkl_b) (\<lambda>u tr.
          and_then
            (if debug
             then
               and_then (export_mkl vendor MKL_INT tr mkl_a a_dbl
                           (if fmt a2 = CSR then ''csr'' else ''csc'') False) (\<lambda>dbg_a tr.
               and_then (export_mkl vendor MKL_INT tr mkl_b b_dbl
                           (if fmt b2 = CSR then ''csr'' else ''csc'') False) (\<lambda>dbg_b tr.
               if shape dbg_a \<noteq> shape a2 then (Inl AssertionError, tr)
               else if shape dbg_b \<noteq> shape b2 then (Inl AssertionError, tr)
               else (Inr (), tr)))
             else (Inr (), tr)) (\<lambda>u tr.
          and_then (matmul_mkl vendor tr a2 b2 mkl_a mkl_b) (\<lambda>mkl_c tr.
          and_then (if reorder_output then order_mkl_handle vendor tr mkl_c else (Inr (), tr))
            (\<lambda>u tr.
          and_then (export_mkl vendor MKL_INT tr mkl_c (a_dbl \<or> b_dbl) ''csr'' copy)
            (\<lambda>python_c tr.
          if debug \<and> data python_c = []
          then (Inl (ValueError ZeroSizeReduction), tr)
          else
          and_then (if copy then destroy_mkl_handle vendor tr mkl_c else (Inr (), tr))
            (\<lambda>u tr. (Inr python_c, tr)))))))) of
          (res, tr) \<Rightarrow> (res, a2, b2, tr))))))"

section \<open>Concrete inputs\<close>

text \<open>
  Two 2 by 2 diagonal matrices in compressed-row form, diag(1, 2) in float64 and
  diag(4, 5) in float32, with 32-bit index arrays as scipy builds them; a 2 by 3 float32
  matrix with two stored entries; and a 3 by 5 float64 matrix with no stored entries.
\<close>

definition diag12 :: "real matrix" where
  "diag12 = \<lparr>fmt = CSR, shape = (2, 2), data = [1, 2], dtype = Float64,
             indices = [0, 1], indices_dtype = Int32,
             indptr = [0, 1, 2], indptr_dtype = Int32\<rparr>"

definition diag45 :: "real matrix" where
  "diag45 = \<lparr>fmt = CSR, shape = (2, 2), data = [4, 5], dtype = Float32,
             indices = [0, 1], indices_dtype = Int32,
             indptr = [0, 1, 2], indptr_dtype = Int32\<rparr>"

definition wide23 :: "real matrix" where
  "wide23 = \<lparr>fmt = CSR, shape = (2, 3), data = [1, 2], dtype = Float32,
             indices = [0, 2], indices_dtype = Int32,
             indptr = [0, 1, 2], indptr_dtype = Int32\<rparr>"

definition zeros35 :: "real matrix" where
  "zeros35 = \<lparr>fmt = CSR, shape = (3, 5), data = [], dtype = Float64,
              indices = [], indices_dtype = Int32,
              indptr = [0, 0, 0, 0], indptr_dtype = Int32\<rparr>"

text \<open>
  A vendor that accepts every call, hands out the next free address as the new handle
  and exports diag(4, 10) whatever the handle.
\<close>

definition diag_reply :: "int \<Rightarrow> handle \<Rightarrow> real reply" where
  "diag_reply st h =
     \<lparr>ret_val = st, ref = h, ordering = 0, nrows = 2, ncols = 2,
      rows_start = (\<lambda>i. int i), rows_end = (\<lambda>i. int i + 1),
      col_indx = (\<lambda>i. int i), vals = (\<lambda>i. if i = 0 then 4 else 10)\<rparr>"

definition ok_vendor :: "real vendor" where
  "ok_vendor tr rq = diag_reply 0 (length tr + 1)"

definition plain_host :: "real host" where
  "plain_host = \<lparr>to_float64 = (\<lambda>d x. x), test_array = diag45\<lparr>fmt := CSC\<rparr>,
                 array_almost_equal = (\<lambda>a b. shape a = shape b)\<rparr>"

text \<open>A vendor as \<open>ok_vendor\<close> whose export reports 1-based ordering.\<close>

definition one_based_vendor :: "real vendor" where
  "one_based_vendor tr rq = (diag_reply 0 (length tr + 1))\<lparr>ordering := 1\<rparr>"


text \<open>
  What the multiplication of diag(1, 2) by diag(4, 5) under \<open>ok_vendor\<close> with 64-bit
  indices and casting yields and leaves behind.
\<close>

definition diag410 :: "real matrix" where
  "diag410 = \<lparr>fmt = CSR, shape = (2, 2), data = [4, 10], dtype = Float64,
              indices = [0, 1], indices_dtype = Int64,
              indptr = [0, 1, 2], indptr_dtype = Int64\<rparr>"

definition diag12_64 :: "real matrix" where
  "diag12_64 = diag12\<lparr>indices_dtype := Int64, indptr_dtype := Int64\<rparr>"

definition diag45_64 :: "real matrix" where
  "diag45_64 = diag45\<lparr>dtype := Float64, indices_dtype := Int64, indptr_dtype := Int64\<rparr>"

text \<open>A vendor whose multiply fails with status 4 and whose other calls succeed.\<close>

definition spmm_fails_vendor :: "real vendor" where
  "spmm_fails_vendor tr rq =
     (case rq of Spmm x y \<Rightarrow> diag_reply 4 0 | _ \<Rightarrow> diag_reply 0 (length tr + 1))"

text \<open>
  A vendor as \<open>ok_vendor\<close> whose export reports row ends 6, 7 for a 2 by 2 matrix: the
  last pointer value minus the first is 7.
\<close>

definition corrupt_vendor :: "real vendor" where
  "corrupt_vendor tr rq = (diag_reply 0 (length tr + 1))\<lparr>rows_end := (\<lambda>i. int i + 6)\<rparr>"




section \<open>Notions used in the statements\<close>

text \<open>The export entry point \<open>_export_mkl\<close> selects for an output type and a precision.\<close>

definition out_func_of :: "string \<Rightarrow> bool \<Rightarrow> entry_point" where
  "out_func_of output_type double_precision =
     (if lower output_type = ''csr''
      then (if double_precision then mkl_sparse_d_export_csr else mkl_sparse_s_export_csr)
      else (if double_precision then mkl_sparse_d_export_csc else mkl_sparse_s_export_csc))"

text \<open>The create entry point \<open>_create_mkl_sparse\<close> selects, and the call it makes for a matrix.\<close>

definition create_func_of :: "format \<Rightarrow> bool \<Rightarrow> entry_point" where
  "create_func_of f double_precision =
     (if f = CSR
      then (if double_precision then mkl_sparse_d_create_csr else mkl_sparse_s_create_csr)
      else (if double_precision then mkl_sparse_d_create_csc else mkl_sparse_s_create_csc))"

definition create_call :: "'v matrix \<Rightarrow> 'v request" where
  "create_call m = Create (create_func_of (fmt m) (dtype m \<noteq> Float32)) m"

text \<open>
  The value array replaced by its float64 copy unless it is float64 already (lines 185 and
  506-507), the dtype check of lines 503-511, and the degenerate test of lines 490-497.
\<close>

definition recast :: "'v host \<Rightarrow> 'v matrix \<Rightarrow> 'v matrix" where
  "recast host m =
     (if dtype m = Float64 then m
      else m\<lparr>data := map (to_float64 host (dtype m)) (data m), dtype := Float64\<rparr>)"

definition dtype_check ::
  "'v host \<Rightarrow> 'v matrix \<Rightarrow> 'v matrix \<Rightarrow> bool \<Rightarrow> error + 'v matrix \<times> 'v matrix" where
  "dtype_check host matrix_a matrix_b cast =
     (if dtype matrix_a \<noteq> dtype matrix_b \<and> cast
      then Inr (recast host matrix_a, recast host matrix_b)
      else if dtype matrix_a \<noteq> dtype matrix_b
      then Inl (ValueError (DtypeConcordance (dtype matrix_a) (dtype matrix_b)))
      else Inr (matrix_a, matrix_b))"

definition degenerate :: "'v matrix \<Rightarrow> 'v matrix \<Rightarrow> bool" where
  "degenerate matrix_a matrix_b \<longleftrightarrow>
     min_list [fst (shape matrix_a), snd (shape matrix_a),
               fst (shape matrix_b), snd (shape matrix_b),
               length (data matrix_a), length (data matrix_b),
               length (indices matrix_a), length (indices matrix_b)] = 0"

text \<open>
  The part of \<open>dot_product_mkl\<close> that runs once both operand handles exist, as a
  function of its own (see \<open>dot_product_mkl_unfold\<close>).
\<close>

definition dot_product_tail ::
  "'v vendor \<Rightarrow> int_dtype \<Rightarrow> 'v trace \<Rightarrow> 'v matrix \<Rightarrow> 'v matrix \<Rightarrow> handle \<Rightarrow> bool
     \<Rightarrow> handle \<Rightarrow> bool \<Rightarrow> bool \<Rightarrow> bool \<Rightarrow> bool \<Rightarrow> (error + 'v matrix) \<times> 'v trace" where
  "dot_product_tail vendor MKL_INT tr a2 b2 mkl_a a_dbl mkl_b b_dbl copy reorder_output debug =
          and_then (order_mkl_handle vendor tr mkl_a) (\<lambda>u tr.
          and_then (order_mkl_handle vendor tr mkl_b) (\<lambda>u tr.
          and_then
            (if debug
             then
               and_then (export_mkl vendor MKL_INT tr mkl_a a_dbl
                           (if fmt a2 = CSR then ''csr'' else ''csc'') False) (\<lambda>dbg_a tr.
               and_then (export_mkl vendor MKL_INT tr mkl_b b_dbl
                           (if fmt b2 = CSR then ''csr'' else ''csc'') False) (\<lambda>dbg_b tr.
               if shape dbg_a \<noteq> shape a2 then (Inl AssertionError, tr)
               else if shape dbg_b \<noteq> shape b2 then (Inl AssertionError, tr)
               else (Inr (), tr)))
             else (Inr (), tr)) (\<lambda>u tr.
          and_then (matmul_mkl vendor tr a2 b2 mkl_a mkl_b) (\<lambda>mkl_c tr.
          and_then (if reorder_output then order_mkl_handle vendor tr mkl_c else (Inr (), tr))
            (\<lambda>u tr.
          and_then (export_mkl vendor MKL_INT tr mkl_c (a_dbl \<or> b_dbl) ''csr'' copy)
            (\<lambda>python_c tr.
          if debug \<and> data python_c = []
          then (Inl (ValueError ZeroSizeReduction), tr)
          else
          and_then (if copy then destroy_mkl_handle vendor tr mkl_c else (Inr (), tr))
            (\<lambda>u tr. (Inr python_c, tr))))))))"

text \<open>The vendor calls of the debug block, and of the whole tail when nothing fails.\<close>

definition debug_calls ::
  "'v matrix \<Rightarrow> 'v matrix \<Rightarrow> handle \<Rightarrow> bool \<Rightarrow> handle \<Rightarrow> bool \<Rightarrow> bool \<Rightarrow> 'v trace" where
  "debug_calls a2 b2 ha da hb db debug =
     (if debug
      then [Export (out_func_of (if fmt a2 = CSR then ''csr'' else ''csc'') da) ha,
            Export (out_func_of (if fmt b2 = CSR then ''csr'' else ''csc'') db) hb]
      else [])"

definition tail_script ::
  "'v vendor \<Rightarrow> 'v trace \<Rightarrow> 'v matrix \<Rightarrow> 'v matrix \<Rightarrow> handle \<Rightarrow> bool \<Rightarrow> handle \<Rightarrow> bool
     \<Rightarrow> bool \<Rightarrow> bool \<Rightarrow> bool \<Rightarrow> 'v trace" where
  "tail_script vendor tr0 a2 b2 ha da hb db copy reorder debug =
     (let pre = [Order ha, Order hb] @ debug_calls a2 b2 ha da hb db debug;
          hc = ref (vendor (tr0 @ pre) (Spmm ha hb))
      in pre @ [Spmm ha hb] @ (if reorder then [Order hc] else [])
           @ [Export (out_func_of ''csr'' (da \<or> db)) hc]
           @ (if copy then [Destroy hc] else []))"

text \<open>
  The vendor calls of a complete run of \<open>dot_product_mkl\<close> past the degenerate check, in
  terms of the operands as the call leaves them: both creates, both reorders, the two
  debug exports, the multiply, the optional reorder of the result, its export and its
  optional destroy.
\<close>

definition handle_a :: "'v vendor \<Rightarrow> 'v matrix \<Rightarrow> handle" where
  "handle_a vendor a' = ref (vendor [] (create_call a'))"

definition handle_b :: "'v vendor \<Rightarrow> 'v matrix \<Rightarrow> 'v matrix \<Rightarrow> handle" where
  "handle_b vendor a' b' = ref (vendor [create_call a'] (create_call b'))"

definition prelude :: "'v vendor \<Rightarrow> 'v matrix \<Rightarrow> 'v matrix \<Rightarrow> bool \<Rightarrow> 'v trace" where
  "prelude vendor a' b' debug =
     [create_call a', create_call b', Order (handle_a vendor a'), Order (handle_b vendor a' b')]
     @ debug_calls a' b' (handle_a vendor a') (dtype a' \<noteq> Float32)
         (handle_b vendor a' b') (dtype b' \<noteq> Float32) debug"

definition multiply_call :: "'v vendor \<Rightarrow> 'v matrix \<Rightarrow> 'v matrix \<Rightarrow> 'v request" where
  "multiply_call vendor a' b' = Spmm (handle_a vendor a') (handle_b vendor a' b')"

definition result_handle :: "'v vendor \<Rightarrow> 'v matrix \<Rightarrow> 'v matrix \<Rightarrow> bool \<Rightarrow> handle" where
  "result_handle vendor a' b' debug =
     ref (vendor (prelude vendor a' b' debug) (multiply_call vendor a' b'))"

definition epilogue :: "'v vendor \<Rightarrow> 'v matrix \<Rightarrow> 'v matrix \<Rightarrow> bool \<Rightarrow> bool \<Rightarrow> bool \<Rightarrow> 'v trace" where
  "epilogue vendor a' b' copy reorder debug =
     (if reorder then [Order (result_handle vendor a' b' debug)] else [])
     @ [Export (out_func_of ''csr'' (dtype a' \<noteq> Float32 \<or> dtype b' \<noteq> Float32))
          (result_handle vendor a' b' debug)]
     @ (if copy then [Destroy (result_handle vendor a' b' debug)] else [])"

definition script :: "'v vendor \<Rightarrow> 'v matrix \<Rightarrow> 'v matrix \<Rightarrow> bool \<Rightarrow> bool \<Rightarrow> bool \<Rightarrow> 'v trace" where
  "script vendor a' b' copy reorder debug =
     prelude vendor a' b' debug @ [multiply_call vendor a' b']
     @ epilogue vendor a' b' copy reorder debug"



text \<open>The destroy calls in a sequence of vendor calls.\<close>

fun is_Destroy :: "'v request \<Rightarrow> bool" where
  "is_Destroy (Destroy h) = True"
| "is_Destroy rq = False"

section \<open>Auxiliary facts\<close>

lemma and_thenE:
  assumes "and_then r k = (res, tr')"
  obtains e where "r = (Inl e, tr')" "res = Inl e"
    | x tr0 where "r = (Inr x, tr0)" "k x tr0 = (res, tr')"
  using assms by (cases r; cases "fst r") (auto simp: and_then_def)

lemma lower_csr: "lower ''csr'' = ''csr''" "lower ''csc'' = ''csc''"
  by (simp_all add: lower_def lower_char_def)

lemma export_mkl_calls:
  "export_mkl vendor W tr h dp ot cp = (r, tr1) \<Longrightarrow> lower ot = ''csr'' \<or> lower ot = ''csc''
    \<Longrightarrow> tr1 = tr @ [Export (out_func_of ot dp) h]"
  by (auto simp: export_mkl_def Let_def out_func_of_def split: if_splits)

lemma export_mkl_calls_csr:
  "export_mkl vendor W tr h dp ''csr'' cp = (r, tr1) \<Longrightarrow> tr1 = tr @ [Export (out_func_of ''csr'' dp) h]"
  by (rule export_mkl_calls) (simp_all add: lower_csr)

lemma export_mkl_calls_if:
  "export_mkl vendor W tr h dp (if c then ''csr'' else ''csc'') cp = (r, tr1)
     \<Longrightarrow> tr1 = tr @ [Export (out_func_of (if c then ''csr'' else ''csc'') dp) h]"
  by (rule export_mkl_calls) (simp_all add: lower_csr)

lemma order_mkl_handle_calls:
  "order_mkl_handle vendor tr h = (r, tr1) \<Longrightarrow> tr1 = tr @ [Order h]"
  by (auto simp: order_mkl_handle_def Let_def split: if_splits)

lemma destroy_mkl_handle_calls:
  "destroy_mkl_handle vendor tr h = (r, tr1) \<Longrightarrow> tr1 = tr @ [Destroy h]"
  by (auto simp: destroy_mkl_handle_def Let_def split: if_splits)

lemma matmul_mkl_calls:
  "matmul_mkl vendor tr a b ha hb = (r, tr1) \<Longrightarrow>
     tr1 = tr @ [Spmm ha hb] \<and> (\<forall>c. r = Inr c \<longrightarrow> c = ref (vendor tr (Spmm ha hb)))"
  by (auto simp: matmul_mkl_def Let_def split: if_splits)

lemma debug_step:
  assumes "(if debug
             then
               and_then (export_mkl vendor MKL_INT tr mkl_a a_dbl
                           (if fmt a2 = CSR then ''csr'' else ''csc'') False) (\<lambda>dbg_a tr.
               and_then (export_mkl vendor MKL_INT tr mkl_b b_dbl
                           (if fmt b2 = CSR then ''csr'' else ''csc'') False) (\<lambda>dbg_b tr.
               if shape dbg_a \<noteq> shape a2 then (Inl AssertionError, tr)
               else if shape dbg_b \<noteq> shape b2 then (Inl AssertionError, tr)
               else (Inr (), tr)))
             else (Inr (), tr)) = (r, tr1)"
  shows "(\<exists>p. tr1 = tr @ p \<and> prefix p (debug_calls a2 b2 mkl_a a_dbl mkl_b b_dbl debug))
       \<and> (r = Inr () \<longrightarrow> tr1 = tr @ debug_calls a2 b2 mkl_a a_dbl mkl_b b_dbl debug)"
proof (cases debug)
  case False
  with assms show ?thesis by (simp add: debug_calls_def)
next
  case True
  with assms show ?thesis
    apply (simp add: debug_calls_def)
    apply (erule and_thenE)
     apply (drule export_mkl_calls_if)
     apply simp
    apply (erule and_thenE)
     apply (drule export_mkl_calls_if)+
     apply simp
    apply (drule export_mkl_calls_if)+
    apply (auto split: if_splits)
    done
qed

lemma tail_script_prefix:
  assumes "dot_product_tail vendor W tr0 a2 b2 ha da hb db copy reorder debug = (res, tr')"
  shows "\<exists>p. tr' = tr0 @ p
           \<and> prefix p (tail_script vendor tr0 a2 b2 ha da hb db copy reorder debug)
           \<and> (\<forall>c. res = Inr c \<longrightarrow>
                 p = tail_script vendor tr0 a2 b2 ha da hb db copy reorder debug)"
  using assms unfolding dot_product_tail_def
  apply -
  apply (erule and_thenE)
  subgoal by (auto dest!: order_mkl_handle_calls simp: tail_script_def Let_def)
  apply (erule and_thenE)
  subgoal by (auto dest!: order_mkl_handle_calls simp: tail_script_def Let_def)
  apply (drule order_mkl_handle_calls)+
  apply (erule and_thenE)
  subgoal by (drule debug_step) (auto simp: tail_script_def Let_def)
  apply (drule debug_step)
  apply (erule and_thenE)
  subgoal by (auto dest!: matmul_mkl_calls simp: tail_script_def Let_def)
  apply (drule matmul_mkl_calls)
  apply (erule and_thenE)
  subgoal by (auto dest!: order_mkl_handle_calls simp: tail_script_def Let_def split: if_splits)
  apply (erule and_thenE)
  subgoal
    by (auto dest!: order_mkl_handle_calls export_mkl_calls_csr
        simp: tail_script_def Let_def split: if_splits)
  apply (drule export_mkl_calls_csr)
  apply (auto dest!: order_mkl_handle_calls destroy_mkl_handle_calls
        elim!: and_thenE simp: tail_script_def Let_def split: if_splits)
  done

lemma dot_product_mkl_unfold:
  "dot_product_mkl host vendor MKL_INT matrix_a matrix_b cast copy reorder_output debug =
     (if fmt matrix_a \<noteq> CSR \<or> fmt matrix_b \<noteq> CSR
      then (Inl (ValueError BothMustBeCSR), matrix_a, matrix_b, [])
      else if snd (shape matrix_a) \<noteq> fst (shape matrix_b)
      then (Inl (ValueError (AlignmentError (shape matrix_a) (shape matrix_b))),
            matrix_a, matrix_b, [])
      else if degenerate matrix_a matrix_b
      then
        (Inr (sp_matrix_empty CSR (fst (shape matrix_a), fst (shape matrix_b))
               (if dtype matrix_a \<noteq> dtype matrix_b \<or> dtype matrix_a \<noteq> Float32
                then Float64 else Float32)),
             matrix_a, matrix_b, [])
      else
        (case dtype_check host matrix_a matrix_b cast of
           Inl e \<Rightarrow> (Inl e, matrix_a, matrix_b, [])
         | Inr (a1, b1) \<Rightarrow>
        (case create_mkl_sparse host vendor MKL_INT [] a1 cast of
           (Inl e, a2, tr) \<Rightarrow> (Inl e, a2, b1, tr)
         | (Inr (mkl_a, a_dbl), a2, tr) \<Rightarrow>
        (case create_mkl_sparse host vendor MKL_INT tr b1 cast of
           (Inl e, b2, tr) \<Rightarrow> (Inl e, a2, b2, tr)
         | (Inr (mkl_b, b_dbl), b2, tr) \<Rightarrow>
        (case dot_product_tail vendor MKL_INT tr a2 b2 mkl_a a_dbl mkl_b b_dbl
                copy reorder_output debug of
          (res, tr) \<Rightarrow> (res, a2, b2, tr))))))"
  unfolding dot_product_mkl_def dtype_check_def recast_def dot_product_tail_def degenerate_def
    Let_def
  by (rule refl)

lemma dot_product_mkl_cases:
  assumes "dot_product_mkl host vendor W a b cast copy reorder debug = (res, a', b', tr)"
  obtains
    (guard) e where "res = Inl e" "a' = a" "b' = b" "tr = []"
  | (short) "degenerate a b" "a' = a" "b' = b" "tr = []"
      "res = Inr (sp_matrix_empty CSR (fst (shape a), fst (shape b))
               (if dtype a \<noteq> dtype b \<or> dtype a \<noteq> Float32 then Float64 else Float32))"
  | (create_a) e a1 b1 where "\<not> degenerate a b" "dtype_check host a b cast = Inr (a1, b1)"
      "create_mkl_sparse host vendor W [] a1 cast = (Inl e, a', tr)" "b' = b1" "res = Inl e"
  | (create_b) e a1 b1 ha da tr1 where "\<not> degenerate a b"
      "dtype_check host a b cast = Inr (a1, b1)"
      "create_mkl_sparse host vendor W [] a1 cast = (Inr (ha, da), a', tr1)"
      "create_mkl_sparse host vendor W tr1 b1 cast = (Inl e, b', tr)" "res = Inl e"
  | (tail) a1 b1 ha da hb db tr1 tr2 where "\<not> degenerate a b"
      "fmt a = CSR" "fmt b = CSR"
      "dtype_check host a b cast = Inr (a1, b1)"
      "create_mkl_sparse host vendor W [] a1 cast = (Inr (ha, da), a', tr1)"
      "create_mkl_sparse host vendor W tr1 b1 cast = (Inr (hb, db), b', tr2)"
      "dot_product_tail vendor W tr2 a' b' ha da hb db copy reorder debug = (res, tr)"
proof -
  note eq = assms [unfolded dot_product_mkl_unfold]
  consider (g1) "fmt a \<noteq> CSR \<or> fmt b \<noteq> CSR"
    | (g2) "fmt a = CSR" "fmt b = CSR" "snd (shape a) \<noteq> fst (shape b)"
    | (d) "fmt a = CSR" "fmt b = CSR" "snd (shape a) = fst (shape b)" "degenerate a b"
    | (n) "fmt a = CSR" "fmt b = CSR" "snd (shape a) = fst (shape b)" "\<not> degenerate a b"
    by blast
  then show thesis
  proof cases
    case g1
    with eq show thesis by (intro guard) auto
  next
    case g2
    with eq show thesis by (intro guard) auto
  next
    case d
    with eq show thesis by (intro short) auto
  next
    case n
    with eq have eq1:
      "(case dtype_check host a b cast of
           Inl e \<Rightarrow> (Inl e, a, b, [])
         | Inr (a1, b1) \<Rightarrow>
        (case create_mkl_sparse host vendor W [] a1 cast of
           (Inl e, a2, tr) \<Rightarrow> (Inl e, a2, b1, tr)
         | (Inr (mkl_a, a_dbl), a2, tr) \<Rightarrow>
        (case create_mkl_sparse host vendor W tr b1 cast of
           (Inl e, b2, tr) \<Rightarrow> (Inl e, a2, b2, tr)
         | (Inr (mkl_b, b_dbl), b2, tr) \<Rightarrow>
        (case dot_product_tail vendor W tr a2 b2 mkl_a a_dbl mkl_b b_dbl copy reorder debug of
          (res, tr) \<Rightarrow> (res, a2, b2, tr))))) = (res, a', b', tr)"
      by simp
    show thesis
    proof (cases "dtype_check host a b cast")
      case (Inl e)
      with eq1 show thesis by (intro guard) auto
    next
      case (Inr ab)
      obtain a1 b1 where ab: "ab = (a1, b1)" by (cases ab)
      obtain r1 a2 tr1 where c1: "create_mkl_sparse host vendor W [] a1 cast = (r1, a2, tr1)"
        by (cases "create_mkl_sparse host vendor W [] a1 cast")
      show thesis
      proof (cases r1)
        case (Inl e)
        with eq1 Inr ab c1 n show thesis by (intro create_a [of a1 b1 e]) auto
      next
        case r1: (Inr hd)
        obtain ha da where hd: "hd = (ha, da)" by (cases hd)
        obtain r2 b2 tr2 where c2: "create_mkl_sparse host vendor W tr1 b1 cast = (r2, b2, tr2)"
          by (cases "create_mkl_sparse host vendor W tr1 b1 cast")
        show thesis
        proof (cases r2)
          case (Inl e)
          with eq1 Inr ab c1 r1 hd c2 n show thesis
            by (intro create_b [of a1 b1 ha da tr1 e]) auto
        next
          case r2: (Inr hd2)
          obtain hb db where hd2: "hd2 = (hb, db)" by (cases hd2)
          from eq1 Inr ab c1 r1 hd c2 r2 hd2 n show thesis
            by (intro tail [of a1 b1 ha da tr1 hb db tr2]) (auto split: prod.splits)
        qed
      qed
    qed
  qed
qed

lemma and_then_Inr:
  "and_then r k = (Inr x, tr) \<longleftrightarrow> (\<exists>y tr0. r = (Inr y, tr0) \<and> k y tr0 = (Inr x, tr))"
  by (cases r; cases "fst r") (auto simp: and_then_def)

lemma export_mkl_dtype:
  "export_mkl vendor W tr h dp ot cp = (Inr c, tr') \<Longrightarrow> dtype c = (if dp then Float64 else Float32)"
  by (auto simp: export_mkl_def Let_def sp_matrix_empty_def sp_matrix_arrays_def split: if_splits)

lemma tail_dtype:
  "dot_product_tail vendor W tr a2 b2 mkl_a a_dbl mkl_b b_dbl copy reorder debug = (Inr c, tr')
   \<Longrightarrow> dtype c = (if a_dbl \<or> b_dbl then Float64 else Float32)"
  unfolding dot_product_tail_def and_then_Inr
  apply (elim exE conjE)
  apply (simp split: if_splits)
  apply (auto simp: and_then_Inr dest: export_mkl_dtype)
  done

lemma check_scipy_index_typing_fields:
  "dtype (check_scipy_index_typing W m) = dtype m"
  "fmt (check_scipy_index_typing W m) = fmt m"
  "data (check_scipy_index_typing W m) = data m"
  "shape (check_scipy_index_typing W m) = shape m"
  by (simp_all add: check_scipy_index_typing_def Let_def)

lemma create_mkl_sparse_Inr:
  assumes "create_mkl_sparse host vendor W tr m cast = (Inr (h, dbl), m2, tr')"
  shows "dbl = (dtype m \<noteq> Float32)" "dbl = (dtype m2 \<noteq> Float32)"
    "m2 = check_scipy_index_typing W (if dtype m = Float32 then m else recast host m)"
    "tr' = tr @ [create_call m2]" "h = ref (vendor tr (create_call m2))"
  using assms
  by (auto simp: create_mkl_sparse_def pass_mkl_handle_def Let_def recast_def create_call_def
      create_func_of_def check_scipy_index_typing_fields
      split: if_splits sum.splits prod.splits)

lemma create_mkl_sparse_Inl:
  assumes "create_mkl_sparse host vendor W tr m cast = (Inl e, m2, tr')"
  shows "tr' = tr \<or> tr' = tr @ [create_call m2]"
  using assms
  by (auto simp: create_mkl_sparse_def pass_mkl_handle_def Let_def create_call_def
      create_func_of_def check_scipy_index_typing_fields
      split: if_splits sum.splits prod.splits)

lemma script_tail:
  assumes "da = (dtype a' \<noteq> Float32)" "db = (dtype b' \<noteq> Float32)"
    "ha = handle_a vendor a'" "hb = handle_b vendor a' b'"
  shows "script vendor a' b' copy reorder debug =
    [create_call a', create_call b'] @
    tail_script vendor [create_call a', create_call b'] a' b' ha da hb db copy reorder debug"
  using assms
  by (simp add: script_def prelude_def multiply_call_def epilogue_def result_handle_def
      tail_script_def Let_def)

lemma run_script:
  assumes "dot_product_mkl host vendor W a b cast copy reorder debug = (res, a', b', tr)"
  shows "prefix tr (script vendor a' b' copy reorder debug)
       \<and> (\<forall>c. res = Inr c \<longrightarrow> \<not> degenerate a b \<longrightarrow> tr = script vendor a' b' copy reorder debug)"
  using assms
proof (cases rule: dot_product_mkl_cases)
  case (guard e)
  then show ?thesis by simp
next
  case short
  then show ?thesis by simp
next
  case (create_a e a1 b1)
  from create_mkl_sparse_Inl [OF create_a(3)] create_a(5) show ?thesis
    by (auto simp: script_def prelude_def)
next
  case (create_b e a1 b1 ha da tr1)
  from create_mkl_sparse_Inr(4) [OF create_b(3)] create_mkl_sparse_Inl [OF create_b(4)]
    create_b(5)
  show ?thesis
    by (auto simp: script_def prelude_def)
next
  case (tail a1 b1 ha da hb db tr1 tr2)
  note A = create_mkl_sparse_Inr [OF tail(5)] and B = create_mkl_sparse_Inr [OF tail(6)]
  have tr2: "tr2 = [create_call a', create_call b']"
    using A(4) B(4) by simp
  have h: "ha = handle_a vendor a'" "hb = handle_b vendor a' b'"
    using A(5) B(5) A(4) by (simp_all add: handle_a_def handle_b_def)
  from tail_script_prefix [OF tail(7)] obtain p where
    p: "tr = tr2 @ p" "prefix p (tail_script vendor tr2 a' b' ha da hb db copy reorder debug)"
      "\<forall>c. res = Inr c \<longrightarrow> p = tail_script vendor tr2 a' b' ha da hb db copy reorder debug"
    by blast
  show ?thesis
    unfolding script_tail [OF A(2) B(2) h] using p tr2 by simp
qed

lemma prelude_calls:
  "Spmm x y \<notin> set (prelude vendor a' b' debug)"
  "Destroy h \<notin> set (prelude vendor a' b' debug)"
  "Order (handle_a vendor a') \<in> set (prelude vendor a' b' debug)"
  "Order (handle_b vendor a' b') \<in> set (prelude vendor a' b' debug)"
  "filter is_Destroy (prelude vendor a' b' debug) = []"
  by (simp_all add: prelude_def debug_calls_def create_call_def)

lemma epilogue_calls:
  "Spmm x y \<notin> set (epilogue vendor a' b' copy reorder debug)"
  "Order h \<in> set (epilogue vendor a' b' copy reorder debug)
     \<longleftrightarrow> reorder \<and> h = result_handle vendor a' b' debug"
  "Destroy h \<in> set (epilogue vendor a' b' copy reorder debug)
     \<longleftrightarrow> copy \<and> h = result_handle vendor a' b' debug"
  by (auto simp: epilogue_def)

lemma prefix_append_cases:
  assumes "prefix t (B @ D)"
  obtains (short) "prefix t B" | (long) us where "t = B @ us" "prefix us D" "us \<noteq> []"
  using assms by (cases "prefix t B") (auto simp: prefix_append)

lemma hd_as_array: "0 < n \<Longrightarrow> hd (as_array f n) = f 0"
  by (simp add: as_array_def hd_map upt_conv_Cons)

lemma last_as_array: "0 < n \<Longrightarrow> last (x # as_array f n) = f (n - 1)"
  by (cases n) (simp_all add: as_array_def last_map)



















lemma run_diag:
  "dot_product_mkl plain_host ok_vendor Int64 diag12 diag45 True True True False
     = (Inr diag410, diag12_64, diag45_64,
        [create_call diag12_64, create_call diag45_64, Order 1, Order 2, Spmm 1 2, Order 5,
         Export mkl_sparse_d_export_csr 5, Destroy 5])"
  by code_simp

section \<open>The degenerate short-circuit\<close>

text \<open>
  C1. The claim: the result of \<open>dot_product_mkl\<close> has shape (rows of the left operand,
  columns of the right operand), in particular on the degenerate short-circuit. The code
  builds the empty result from \<open>matrix_a.shape[0]\<close> and \<open>matrix_b.shape[0]\<close>: for a
  2 by 3 left operand and a 3 by 5 right operand without stored entries the returned matrix
  has shape (2, 3), where the product has shape (2, 5).
\<close>

theorem degenerate_shape_takes_right_rows:
  "fst (dot_product_mkl plain_host ok_vendor Int64 wide23 zeros35 False False False False)
     = Inr (sp_matrix_empty CSR (2, 3) Float64)
   \<and> shape (sp_matrix_empty CSR (2, 3) Float64 :: real matrix) = (2, 3)
   \<and> (fst (shape wide23), snd (shape zeros35)) = (2, 5)"
  by (simp add: dot_product_mkl_unfold degenerate_def wide23_def zeros35_def sp_matrix_empty_def)

theorem degenerate_shape_takes_right_rows_witness:
  "fst (dot_product_mkl plain_host ok_vendor Int64 wide23 zeros35 False False False False)
     = Inr (sp_matrix_empty CSR (2, 3) Float64)"
  using degenerate_shape_takes_right_rows by (rule conjunct1)

section \<open>Dtype mismatch without casting\<close>

text \<open>
  C4, as stated: every pair of conformable compressed-row operands whose dtypes disagree
  makes the call fail when \<open>cast\<close> is false. It does not hold: the degenerate check comes
  before the dtype check, so a float32 operand times a float64 operand without stored
  entries returns an empty float64 matrix.
\<close>

theorem dtype_mismatch_degenerate_returns:
  "fmt wide23 = CSR \<and> fmt zeros35 = CSR \<and> snd (shape wide23) = fst (shape zeros35)
   \<and> dtype wide23 \<noteq> dtype zeros35
   \<and> fst (dot_product_mkl plain_host ok_vendor Int64 wide23 zeros35 False False False False)
       = Inr (sp_matrix_empty CSR (2, 3) Float64)"
  by (simp add: dot_product_mkl_unfold degenerate_def wide23_def zeros35_def)

text \<open>
  C4, amended: for conformable compressed-row operands that do not trigger the degenerate
  short-circuit and whose dtypes disagree, the call with \<open>cast\<close> false raises the
  dtype-mismatch error naming both dtypes; no vendor call is made and the operands are
  left as they were.
\<close>

theorem dtype_mismatch_raises:
  assumes "fmt a = CSR" "fmt b = CSR" "snd (shape a) = fst (shape b)"
    and "\<not> degenerate a b"
    and "dtype a \<noteq> dtype b"
  shows "dot_product_mkl host vendor W a b False copy reorder debug
           = (Inl (ValueError (DtypeConcordance (dtype a) (dtype b))), a, b, [])"
  using assms by (simp add: dot_product_mkl_unfold dtype_check_def)

theorem dtype_mismatch_raises_witness:
  "dot_product_mkl plain_host ok_vendor Int64 diag12 diag45 False False False False
     = (Inl (ValueError (DtypeConcordance Float64 Float32)), diag12, diag45, [])"
  using dtype_mismatch_raises [of diag12 diag45 plain_host ok_vendor Int64 False False False]
  by (simp add: diag12_def diag45_def degenerate_def)

section \<open>Result dtype\<close>

text \<open>
  C3. Whenever \<open>dot_product_mkl\<close> returns a matrix, on the degenerate short-circuit or
  after the vendor multiply, its dtype is float32 if both operands were float32 when
  passed in, and float64 otherwise.
\<close>

theorem result_dtype:
  assumes "dot_product_mkl host vendor W a b cast copy reorder debug = (Inr c, a', b', tr)"
  shows "dtype c = (if dtype a = Float32 \<and> dtype b = Float32 then Float32 else Float64)"
  using assms
proof (cases rule: dot_product_mkl_cases)
  case (guard e)
  then show ?thesis by simp
next
  case short
  then show ?thesis by (auto simp: sp_matrix_empty_def)
next
  case (create_a e a1 b1)
  then show ?thesis by simp
next
  case (create_b e a1 b1 ha da tr1)
  then show ?thesis by simp
next
  case (tail a1 b1 ha da hb db tr1 tr2)
  have "dtype c = (if da \<or> db then Float64 else Float32)"
    using tail(7) by (rule tail_dtype)
  moreover have "da = (dtype a1 \<noteq> Float32)" "db = (dtype b1 \<noteq> Float32)"
    using create_mkl_sparse_Inr(1) [OF tail(5)] create_mkl_sparse_Inr(1) [OF tail(6)] by auto
  ultimately show ?thesis using tail(4)
    by (auto simp: dtype_check_def recast_def split: if_splits)
qed

theorem result_dtype_witness:
  "dtype diag410 = (if dtype diag12 = Float32 \<and> dtype diag45 = Float32 then Float32 else Float64)"
  using result_dtype [OF run_diag] .

section \<open>Mutation of the operands\<close>

text \<open>
  C10. On the success path past the degenerate check the caller's matrices are left
  mutated: the pointer and index arrays of each operand are re-typed to the MKL integer
  type wherever their dtype differed from it (\<open>check_scipy_index_typing\<close>), and with
  \<open>cast\<close> set the value array of an operand that is not float64 is replaced by its float64
  copy unless both operands are float32 (\<open>recast\<close>). The matrices returned with the result
  are the ones the caller holds afterwards; nothing restores them.
\<close>

theorem operands_mutated:
  assumes "dot_product_mkl host vendor W a b cast copy reorder debug = (Inr c, a', b', tr)"
    and "\<not> degenerate a b"
  shows "a' = check_scipy_index_typing W
                (if cast \<and> \<not> (dtype a = Float32 \<and> dtype b = Float32) then recast host a else a)
       \<and> b' = check_scipy_index_typing W
                (if cast \<and> \<not> (dtype a = Float32 \<and> dtype b = Float32) then recast host b else b)"
  using assms(1)
proof (cases rule: dot_product_mkl_cases)
  case (tail a1 b1 ha da hb db tr1 tr2)
  note A = create_mkl_sparse_Inr(3) [OF tail(5)] and B = create_mkl_sparse_Inr(3) [OF tail(6)]
  have "dtype a1 = Float32 \<or> dtype a1 = Float64 \<or> cast"
    using tail(5) by (auto simp: create_mkl_sparse_def split: if_splits)
  moreover have "dtype b1 = Float32 \<or> dtype b1 = Float64 \<or> cast"
    using tail(6) by (auto simp: create_mkl_sparse_def split: if_splits)
  ultimately show ?thesis
    using A B tail(4)
    by (auto simp: dtype_check_def recast_def split: if_splits)
qed (use assms(2) in simp_all)

theorem operands_mutated_witness:
  "diag12_64 = check_scipy_index_typing Int64 (recast plain_host diag12)
   \<and> diag45_64 = check_scipy_index_typing Int64 (recast plain_host diag45)
   \<and> diag12_64 \<noteq> diag12 \<and> diag45_64 \<noteq> diag45"
proof -
  have nd: "\<not> degenerate diag12 diag45"
    by (simp add: degenerate_def diag12_def diag45_def)
  have d: "dtype diag12 = Float64"
    by (simp add: diag12_def)
  have "diag12_64 = check_scipy_index_typing Int64 (recast plain_host diag12)
      \<and> diag45_64 = check_scipy_index_typing Int64 (recast plain_host diag45)"
    using operands_mutated [OF run_diag nd] d by simp
  moreover have "diag12_64 \<noteq> diag12" "diag45_64 \<noteq> diag45"
    by (simp_all add: diag12_64_def diag45_64_def diag12_def diag45_def)
  ultimately show ?thesis by blast
qed

section \<open>Order of the vendor calls\<close>

text \<open>
  C8. In every call in which the vendor multiply is invoked, the multiply is applied to
  the two operand handles, and the calls before it are the \<open>prelude\<close>: both creates, then
  the reorder of each operand handle whatever the options, then the debug exports. After
  the multiply a handle is reordered only if \<open>reorder_output\<close> was set, and then it is the
  result handle; a handle is destroyed only if \<open>copy\<close> was set, and then it is the result
  handle.
\<close>

theorem vendor_call_order:
  assumes run: "dot_product_mkl host vendor W a b cast copy reorder debug = (res, a', b', tr)"
    and mul: "Spmm x y \<in> set tr"
  shows "x = handle_a vendor a' \<and> y = handle_b vendor a' b'
       \<and> Order x \<in> set (prelude vendor a' b' debug)
       \<and> Order y \<in> set (prelude vendor a' b' debug)
       \<and> (\<exists>post. tr = prelude vendor a' b' debug @ [Spmm x y] @ post
             \<and> (\<forall>h. Order h \<in> set post \<longrightarrow> reorder \<and> h = result_handle vendor a' b' debug))
       \<and> (\<forall>h. Destroy h \<in> set tr \<longrightarrow> copy \<and> h = result_handle vendor a' b' debug)"
proof -
  let ?P = "prelude vendor a' b' debug"
  let ?E = "epilogue vendor a' b' copy reorder debug"
  let ?m = "multiply_call vendor a' b'"
  have pre: "prefix tr (?P @ ?m # ?E)"
    using run_script [OF run] by (simp add: script_def)
  note nP = prelude_calls(1) [of x y vendor a' b' debug]
  have "\<not> prefix tr ?P"
    using mul nP set_mono_prefix by blast
  with pre obtain us where us: "tr = ?P @ us" "prefix us (?m # ?E)"
    by (auto simp: prefix_append)
  have "us \<noteq> []"
    using us(1) mul nP by auto
  with us(2) obtain post where post: "us = ?m # post" "prefix post ?E"
    by (cases us) auto
  have sub: "set post \<subseteq> set ?E"
    using post(2) by (rule set_mono_prefix)
  have "Spmm x y = ?m"
    using mul us(1) post(1) sub nP epilogue_calls(1) [of x y vendor a' b' copy reorder debug]
    by auto
  then have xy: "x = handle_a vendor a'" "y = handle_b vendor a' b'"
    by (simp_all add: multiply_call_def)
  have tr: "tr = ?P @ [Spmm x y] @ post"
    using us(1) post(1) \<open>Spmm x y = ?m\<close> by simp
  have ord: "\<forall>h. Order h \<in> set post \<longrightarrow> reorder \<and> h = result_handle vendor a' b' debug"
    using sub epilogue_calls(2) [of _ vendor a' b' copy reorder debug] by blast
  have des: "\<forall>h. Destroy h \<in> set tr \<longrightarrow> copy \<and> h = result_handle vendor a' b' debug"
    using tr sub epilogue_calls(3) [of _ vendor a' b' copy reorder debug]
      prelude_calls(2) [of _ vendor a' b' debug]
    by auto
  show ?thesis
    using xy tr ord des prelude_calls(3,4) [of vendor a' b' debug] by blast
qed

theorem vendor_call_order_witness:
  "1 = handle_a ok_vendor diag12_64 \<and> 2 = handle_b ok_vendor diag12_64 diag45_64
   \<and> Order 1 \<in> set (prelude ok_vendor diag12_64 diag45_64 False)
   \<and> Order 2 \<in> set (prelude ok_vendor diag12_64 diag45_64 False)
   \<and> (\<exists>post. [create_call diag12_64, create_call diag45_64, Order 1, Order 2, Spmm 1 2,
                Order 5, Export mkl_sparse_d_export_csr 5, Destroy 5]
              = prelude ok_vendor diag12_64 diag45_64 False @ [Spmm 1 2] @ post)"
proof -
  have "Spmm 1 2 \<in> set [create_call diag12_64, create_call diag45_64, Order 1, Order 2,
                         Spmm 1 2, Order 5, Export mkl_sparse_d_export_csr 5, Destroy 5]"
    by simp
  from vendor_call_order [OF run_diag this] show ?thesis by blast
qed

section \<open>Destruction of handles\<close>

text \<open>
  C2, as stated: on every exit path every handle created during the call is destroyed
  before the call returns or the error propagates. It does not hold. When the multiply
  fails with status 4, with \<open>copy\<close> set, the error propagates after the calls create,
  create, reorder, reorder, multiply: the operand handles 1 and 2 exist and no destroy call
  was made. When everything succeeds, the only destroy call is the one for the result
  handle 5.
\<close>

theorem operand_handles_not_destroyed:
  "dot_product_mkl plain_host spmm_fails_vendor Int64 diag12 diag45 True True False False
     = (Inl (ValueError (VendorReturned mkl_sparse_spmm 4 ''SPARSE_STATUS_EXECUTION_FAILED'')),
        diag12_64, diag45_64,
        [create_call diag12_64, create_call diag45_64, Order 1, Order 2, Spmm 1 2])
   \<and> handle_a spmm_fails_vendor diag12_64 = 1
   \<and> handle_b spmm_fails_vendor diag12_64 diag45_64 = 2
   \<and> dot_product_mkl plain_host ok_vendor Int64 diag12 diag45 True True True False
     = (Inr diag410, diag12_64, diag45_64,
        [create_call diag12_64, create_call diag45_64, Order 1, Order 2, Spmm 1 2, Order 5,
         Export mkl_sparse_d_export_csr 5, Destroy 5])"
  by code_simp

text \<open>
  C2, amended: \<open>dot_product_mkl\<close> makes at most one destroy call. It makes it for the
  result handle, as the last vendor call of a complete run (after the export of the
  result), and only when \<open>copy\<close> is set. The operand handles are not destroyed on any exit
  path, and on an exit path that ends before the last call no handle is destroyed.
\<close>

theorem destroy_only_result:
  assumes run: "dot_product_mkl host vendor W a b cast copy reorder debug = (res, a', b', tr :: 'v trace)"
  shows "filter is_Destroy tr =
           (if copy \<and> tr = script vendor a' b' copy reorder debug
            then [Destroy (result_handle vendor a' b' debug)] else [])"
proof -
  define hc where "hc = result_handle vendor a' b' debug"
  define B where "B = prelude vendor a' b' debug @ [multiply_call vendor a' b']
     @ (if reorder then [Order hc] else [])
     @ [Export (out_func_of ''csr'' (dtype a' \<noteq> Float32 \<or> dtype b' \<noteq> Float32)) hc]"
  define D where "D = (if copy then [Destroy hc] else ([] :: 'v trace))"
  have S: "script vendor a' b' copy reorder debug = B @ D"
    by (simp add: script_def epilogue_def B_def D_def hc_def)
  have B: "filter is_Destroy B = []"
    by (simp add: B_def prelude_calls(5) multiply_call_def)
  have pre: "prefix tr (B @ D)"
    using run_script [OF run] unfolding S by simp
  then show ?thesis
  proof (cases rule: prefix_append_cases)
    case short
    then obtain zs where zs: "B = tr @ zs" by (auto simp: prefix_def)
    have f: "filter is_Destroy tr = []"
      using B unfolding zs by simp
    have "\<not> (copy \<and> tr = B @ D)"
    proof
      assume c: "copy \<and> tr = B @ D"
      then have "filter is_Destroy tr = [Destroy hc]" using B by (simp add: D_def)
      with f show False by simp
    qed
    with f show ?thesis unfolding S by simp
  next
    case (long us)
    then have "copy" "us = [Destroy hc]"
      by (cases us; auto simp: D_def split: if_splits)+
    then show ?thesis
      unfolding S using long(1) B by (simp add: D_def hc_def)
  qed
qed

theorem destroy_only_result_witness:
  "filter is_Destroy [create_call diag12_64, create_call diag45_64, Order 1, Order 2,
                      Spmm 1 2, Order 5, Export mkl_sparse_d_export_csr 5, Destroy 5] =
     (if True \<and> [create_call diag12_64, create_call diag45_64, Order 1, Order 2, Spmm 1 2,
                  Order 5, Export mkl_sparse_d_export_csr 5, Destroy 5]
                 = script ok_vendor diag12_64 diag45_64 True True False
      then [Destroy (result_handle ok_vendor diag12_64 diag45_64 False)] else [])"
  using destroy_only_result [OF run_diag] .

section \<open>Vendor status codes\<close>




section \<open>Export\<close>

text \<open>
  C6. After a vendor export call that succeeded (and whose reported ordering passed the
  check of C7), with \<open>r\<close> what the vendor reported: the routine makes no further vendor
  call; if a reported dimension is zero it returns the empty matrix of the reported shape;
  otherwise \<open>nnz\<close> is the last reported pointer value (the end of the last row or column)
  minus the first (the start of the first), in the arithmetic of the MKL integer type;
  when \<open>nnz\<close> is zero it returns the empty matrix of the reported shape, and when \<open>nnz\<close>
  is negative or exceeds rows times columns it raises the corrupt-export error.
\<close>

theorem export_dimensions_and_nnz:
  assumes ot: "lower ot = ''csr'' \<or> lower ot = ''csc''"
    and r: "vendor tr (Export (out_func_of ot dp) h) = r"
    and ok: "ret_val r = 0" "ordering r = 0"
    and f: "sp_fmt = (if lower ot = ''csr'' then CSR else CSC)"
    and d: "final_dtype = (if dp then Float64 else Float32)"
    and n: "nnz = wrap W (wrap W (rows_end r ((if lower ot = ''csr'' then nrows r else ncols r) - 1))
                         - wrap W (rows_start r 0))"
  shows "snd (export_mkl vendor W tr h dp ot cp) = tr @ [Export (out_func_of ot dp) h]
    \<and> (nrows r = 0 \<or> ncols r = 0 \<longrightarrow>
         fst (export_mkl vendor W tr h dp ot cp)
           = Inr (sp_matrix_empty sp_fmt (nrows r, ncols r) final_dtype))
    \<and> (nrows r \<noteq> 0 \<and> ncols r \<noteq> 0 \<and> nnz = 0 \<longrightarrow>
         fst (export_mkl vendor W tr h dp ot cp)
           = Inr (sp_matrix_empty sp_fmt (nrows r, ncols r) final_dtype))
    \<and> (nrows r \<noteq> 0 \<and> ncols r \<noteq> 0 \<and> (nnz < 0 \<or> nnz > int (ncols r * nrows r)) \<longrightarrow>
         fst (export_mkl vendor W tr h dp ot cp)
           = Inl (ValueError (AttemptingToIndex (nrows r) (ncols r) nnz)))"
proof -
  have as_array_ne: "\<And>g k. 0 < k \<Longrightarrow> as_array g k \<noteq> []"
    by (simp add: as_array_def)
  have last_arr: "\<And>g k. 0 < k \<Longrightarrow> last (as_array g k) = g (k - 1)"
    by (simp add: as_array_def last_map)
  consider (r0) "nrows r = 0" | (c0) "nrows r \<noteq> 0" "ncols r = 0"
    | (pos) "0 < nrows r" "0 < ncols r"
    by (cases "nrows r = 0"; cases "ncols r = 0") auto
  then show ?thesis
  proof cases
    case r0
    with ot r ok f d show ?thesis
      by (auto simp: export_mkl_def out_func_of_def Let_def)
  next
    case c0
    with ot r ok f d show ?thesis
      by (auto simp: export_mkl_def out_func_of_def Let_def)
  next
    case pos
    have nn: "0 \<le> int (ncols r) * int (nrows r)" by simp
    show ?thesis
    proof (cases "lower ot = ''csr''")
      case True
      with pos r ok f d n nn show ?thesis
        by (simp add: export_mkl_def out_func_of_def Let_def hd_as_array last_arr as_array_ne)
          (insert nn, linarith)
    next
      case False
      with ot have "lower ot = ''csc''" by simp
      with False pos r ok f d n nn show ?thesis
        by (simp add: export_mkl_def out_func_of_def Let_def hd_as_array last_arr as_array_ne)
          (insert nn, linarith)
    qed
  qed
qed

theorem export_dimensions_and_nnz_witness:
  "fst (export_mkl corrupt_vendor Int64 [] 1 True ''csr'' False)
     = Inl (ValueError (AttemptingToIndex 2 2 7))"
proof -
  note t = export_dimensions_and_nnz [where ot = "''csr''" and vendor = corrupt_vendor
      and tr = "[]" and dp = True and h = 1 and W = Int64 and cp = False,
      OF _ refl _ _ refl refl refl]
  have "lower ''csr'' = ''csr'' \<or> lower ''csr'' = ''csc''"
    by (simp add: lower_csr)
  moreover have "ret_val (corrupt_vendor [] (Export (out_func_of ''csr'' True) 1)) = 0"
    "ordering (corrupt_vendor [] (Export (out_func_of ''csr'' True) 1)) = 0"
    by (simp_all add: corrupt_vendor_def diag_reply_def)
  ultimately show ?thesis
    using t by (simp add: corrupt_vendor_def diag_reply_def lower_csr wrap_def bits_def)
qed

text \<open>
  C7. Whenever the vendor's export call succeeds and reports an ordering other than
  0-based, \<open>_export_mkl\<close> raises the unsupported-ordering error after that one vendor
  call; no matrix is constructed.
\<close>

theorem export_rejects_one_based:
  assumes "lower ot = ''csr'' \<or> lower ot = ''csc''"
    and "ret_val (vendor tr (Export (out_func_of ot dp) h)) = 0"
    and "ordering (vendor tr (Export (out_func_of ot dp) h)) \<noteq> 0"
  shows "export_mkl vendor W tr h dp ot cp
           = (Inl (ValueError OneIndexingUnsupported), tr @ [Export (out_func_of ot dp) h])"
  using assms by (auto simp: export_mkl_def out_func_of_def Let_def)

theorem export_rejects_one_based_witness:
  "export_mkl one_based_vendor Int64 [] 1 True ''csr'' False
     = (Inl (ValueError OneIndexingUnsupported), [Export mkl_sparse_d_export_csr 1])"
  using export_rejects_one_based [of "''csr''" one_based_vendor "[]" True 1 Int64 False]
  by (simp add: one_based_vendor_def diag_reply_def out_func_of_def lower_def lower_char_def)

section \<open>Integer-width discovery at import\<close>



end
